theory Spec2Isabelle
  imports Main
begin

section \<open>Objects of the media SDK, as the two providers read them\<close>

text \<open>
  The session provider (\<^verbatim>\<open>src/unnamed/part_001\<close>) and the device provider
  (\<^verbatim>\<open>src/context/UserMedia.tsx\<close>, with a second version in
  \<^verbatim>\<open>src/unnamed/part_002\<close>) are glue around the SDK \<^verbatim>\<open>@mux/spaces-web\<close>.
  Only the fields and methods that the providers read are modelled.  A JavaScript object is
  a record, \<^verbatim>\<open>undefined\<close> and \<^verbatim>\<open>null\<close> are \<open>None\<close>, a thrown exception
  is the left injection of a sum.
\<close>

datatype TrackSource = Microphone | Camera | Screenshare | OtherSource

datatype TrackKind = Audio | Video

record Track =
  source :: TrackSource
  kind :: TrackKind
  deviceId :: "string option"
  hasMedia :: bool
  muted :: bool

record Participant =
  connectionId :: string
  displayName :: string

record RemoteParticipant = Participant +
  isSubscribed :: bool

record LocalParticipant = Participant +
  tracks :: "Track list"

text \<open>The union type \<^verbatim>\<open>LocalParticipant | RemoteParticipant\<close>; \<^verbatim>\<open>instanceof\<close> is the
  case distinction.\<close>

datatype AnyParticipant = Local LocalParticipant | Remote RemoteParticipant

record ActiveSpeaker =
  participant :: AnyParticipant

text \<open>Exceptions: \<^verbatim>\<open>new Error(message)\<close> of the providers and of the SDK, and the
  \<^verbatim>\<open>TypeError\<close> of a method call on \<^verbatim>\<open>undefined\<close>.\<close>

datatype js_error = Error string | TypeError string

text \<open>A \<^verbatim>\<open>Space\<close> of the SDK, reduced to what \<^verbatim>\<open>leaveSpace\<close> calls: each field is
  the outcome of the method of that name, \<open>None\<close> when it returns and \<open>Some e\<close> when it
  throws \<open>e\<close>.\<close>

record Space =
  removeAllListeners :: "js_error option"
  leave :: "js_error option"

section \<open>The session provider (src/unnamed/part_001)\<close>

text \<open>The \<^verbatim>\<open>useState\<close> cells of \<^verbatim>\<open>SpaceProvider\<close>.\<close>

record SpaceState =
  space :: "Space option"
  spaceEndsAt :: "nat option"
  localParticipant :: "LocalParticipant option"
  remoteParticipants :: "RemoteParticipant list"
  isJoined :: bool
  joinError :: "string option"
  isBroadcasting :: bool
  screenShareTrack :: "Track option"
  screenShareError :: "string option"
  participantScreenSharing :: "AnyParticipant option"

definition initialState :: SpaceState where
  "initialState =
     \<lparr>space = None, spaceEndsAt = None, localParticipant = None, remoteParticipants = [],
      isJoined = False, joinError = None, isBroadcasting = False, screenShareTrack = None,
      screenShareError = None, participantScreenSharing = None\<rparr>"

subsection \<open>Array methods\<close>

text \<open>\<^verbatim>\<open>Array.prototype.findIndex\<close>: the first index whose element satisfies the
  predicate, \<open>-1\<close> when there is none.\<close>

fun findIndex :: "('a \<Rightarrow> bool) \<Rightarrow> 'a list \<Rightarrow> int" where
  "findIndex P [] = - 1"
| "findIndex P (x # xs) =
     (if P x then 0 else (let i = findIndex P xs in if i < 0 then - 1 else i + 1))"

text \<open>\<^verbatim>\<open>xs.splice(start, 1)\<close>: a negative \<open>start\<close> counts from the end (and is clamped at
  0), a \<open>start\<close> beyond the end is clamped to the length; one element is removed there, if
  there is one.\<close>

definition splice_at :: "int \<Rightarrow> 'a list \<Rightarrow> 'a list" where
  "splice_at start xs =
     (let n = int (length xs);
          k = nat (if start < 0 then max (n + start) 0 else min start n)
      in take k xs @ drop (Suc k) xs)"

subsection \<open>Roster updaters: the functions passed to setRemoteParticipants\<close>

definition handleParticipantJoined_updater ::
  "RemoteParticipant \<Rightarrow> RemoteParticipant list \<Rightarrow> RemoteParticipant list" where
  "handleParticipantJoined_updater newParticipant old =
     (case find (\<lambda>p. connectionId p = connectionId newParticipant) old of
        Some found \<Rightarrow> old
      | None \<Rightarrow> old @ [newParticipant])"

definition handleParticipantLeft_updater ::
  "RemoteParticipant \<Rightarrow> RemoteParticipant list \<Rightarrow> RemoteParticipant list" where
  "handleParticipantLeft_updater leaving old =
     filter (\<lambda>p. connectionId p \<noteq> connectionId leaving) old"

text \<open>The body of \<^verbatim>\<open>changes.forEach\<close> in \<^verbatim>\<open>handleActiveSpeakerChanged\<close>.  The constant
  \<^verbatim>\<open>MAX_PARTICIPANTS_PER_PAGE\<close> comes from \<^verbatim>\<open>lib/constants\<close>, which is not among the
  sources: it is the first parameter.\<close>

definition activeSpeakerStep ::
  "int \<Rightarrow> RemoteParticipant list \<Rightarrow> ActiveSpeaker \<Rightarrow> RemoteParticipant list" where
  "activeSpeakerStep MAX_PARTICIPANTS_PER_PAGE updated activeSpeaker =
     (case participant activeSpeaker of
        Local lp \<Rightarrow> updated
      | Remote rp \<Rightarrow>
          (let idx = findIndex (\<lambda>p. connectionId p = connectionId rp) updated
           in if idx \<ge> MAX_PARTICIPANTS_PER_PAGE - 1
              then rp # splice_at idx updated
              else updated))"

definition handleActiveSpeakerChanged_updater ::
  "int \<Rightarrow> ActiveSpeaker list \<Rightarrow> RemoteParticipant list \<Rightarrow> RemoteParticipant list" where
  "handleActiveSpeakerChanged_updater MAX_PARTICIPANTS_PER_PAGE changes old =
     foldl (activeSpeakerStep MAX_PARTICIPANTS_PER_PAGE) old changes"

text \<open>\<^verbatim>\<open>found.displayName = updated.displayName\<close> on the first entry with the connection
  id, then a copy of the array.  The assignment changes the participant object itself; the
  model changes the roster entry only, and no property below reads the name through another
  reference.\<close>

fun setDisplayNameOfFirst ::
  "string \<Rightarrow> string \<Rightarrow> RemoteParticipant list \<Rightarrow> RemoteParticipant list" where
  "setDisplayNameOfFirst cid n [] = []"
| "setDisplayNameOfFirst cid n (p # ps) =
     (if connectionId p = cid then p\<lparr>displayName := n\<rparr> # ps
      else p # setDisplayNameOfFirst cid n ps)"

definition handleParticipantDisplayNameChanged_updater ::
  "RemoteParticipant \<Rightarrow> RemoteParticipant list \<Rightarrow> RemoteParticipant list" where
  "handleParticipantDisplayNameChanged_updater updated old =
     setDisplayNameOfFirst (connectionId updated) (displayName updated) old"

definition replaceChanged :: "RemoteParticipant \<Rightarrow> RemoteParticipant \<Rightarrow> RemoteParticipant" where
  "replaceChanged participantWhoChanged p =
     (if connectionId p = connectionId participantWhoChanged then participantWhoChanged else p)"

definition reorderRemoteParticipantsBySubscription_updater ::
  "RemoteParticipant \<Rightarrow> RemoteParticipant list \<Rightarrow> RemoteParticipant list" where
  "reorderRemoteParticipantsBySubscription_updater participantWhoChanged old =
     (let updated = map (replaceChanged participantWhoChanged) old
      in filter (\<lambda>p. isSubscribed p) updated @ filter (\<lambda>p. \<not> isSubscribed p) updated)"

subsection \<open>Event handlers bound in joinSpace\<close>

definition handleBroadcastStateChange :: "bool \<Rightarrow> SpaceState \<Rightarrow> SpaceState" where
  "handleBroadcastStateChange broadcastState s = s\<lparr>isBroadcasting := broadcastState\<rparr>"

definition handleParticipantJoined :: "RemoteParticipant \<Rightarrow> SpaceState \<Rightarrow> SpaceState" where
  "handleParticipantJoined newParticipant s =
     s\<lparr>remoteParticipants := handleParticipantJoined_updater newParticipant (remoteParticipants s)\<rparr>"

definition handleParticipantLeft :: "RemoteParticipant \<Rightarrow> SpaceState \<Rightarrow> SpaceState" where
  "handleParticipantLeft leaving s =
     s\<lparr>remoteParticipants := handleParticipantLeft_updater leaving (remoteParticipants s)\<rparr>"

definition handleActiveSpeakerChanged ::
  "int \<Rightarrow> ActiveSpeaker list \<Rightarrow> SpaceState \<Rightarrow> SpaceState" where
  "handleActiveSpeakerChanged MAX_PARTICIPANTS_PER_PAGE changes s =
     s\<lparr>remoteParticipants :=
         handleActiveSpeakerChanged_updater MAX_PARTICIPANTS_PER_PAGE changes (remoteParticipants s)\<rparr>"

definition setupScreenShare :: "AnyParticipant \<Rightarrow> Track \<Rightarrow> SpaceState \<Rightarrow> SpaceState" where
  "setupScreenShare p track s =
     s\<lparr>screenShareTrack := Some track, participantScreenSharing := Some p\<rparr>"

definition tearDownScreenShare :: "SpaceState \<Rightarrow> SpaceState" where
  "tearDownScreenShare s = s\<lparr>screenShareTrack := None, participantScreenSharing := None\<rparr>"

definition reorderRemoteParticipantsBySubscription ::
  "RemoteParticipant \<Rightarrow> SpaceState \<Rightarrow> SpaceState" where
  "reorderRemoteParticipantsBySubscription participantWhoChanged s =
     s\<lparr>remoteParticipants :=
         reorderRemoteParticipantsBySubscription_updater participantWhoChanged (remoteParticipants s)\<rparr>"

definition handleParticipantTrackPublished ::
  "AnyParticipant \<Rightarrow> Track \<Rightarrow> SpaceState \<Rightarrow> SpaceState" where
  "handleParticipantTrackPublished p track s =
     (if source track = Screenshare \<and> hasMedia track then setupScreenShare p track s else s)"

definition handleParticipantTrackSubscribed ::
  "AnyParticipant \<Rightarrow> Track \<Rightarrow> SpaceState \<Rightarrow> SpaceState" where
  "handleParticipantTrackSubscribed p track s =
     (let s1 = (case p of Remote rp \<Rightarrow> reorderRemoteParticipantsBySubscription rp s
                        | Local lp \<Rightarrow> s)
      in if source track = Screenshare \<and> hasMedia track then setupScreenShare p track s1 else s1)"

definition handleParticipantTrackUnpublished ::
  "AnyParticipant \<Rightarrow> Track \<Rightarrow> SpaceState \<Rightarrow> SpaceState" where
  "handleParticipantTrackUnpublished p track s =
     (if source track = Screenshare then tearDownScreenShare s else s)"

definition handleParticipantTrackUnsubscribed ::
  "AnyParticipant \<Rightarrow> Track \<Rightarrow> SpaceState \<Rightarrow> SpaceState" where
  "handleParticipantTrackUnsubscribed p track s =
     (let s1 = (case p of Remote rp \<Rightarrow> reorderRemoteParticipantsBySubscription rp s
                        | Local lp \<Rightarrow> s)
      in if source track = Screenshare then tearDownScreenShare s1 else s1)"

definition handleParticipantDisplayNameChanged ::
  "AnyParticipant \<Rightarrow> SpaceState \<Rightarrow> SpaceState" where
  "handleParticipantDisplayNameChanged updated s =
     (case updated of
        Remote rp \<Rightarrow>
          s\<lparr>remoteParticipants :=
              handleParticipantDisplayNameChanged_updater rp (remoteParticipants s)\<rparr>
      | Local lp \<Rightarrow>
          s\<lparr>localParticipant :=
              (case localParticipant s of
                 None \<Rightarrow> None
               | Some l \<Rightarrow> Some (l\<lparr>displayName := displayName lp\<rparr>))\<rparr>)"

subsection \<open>leaveSpace\<close>

text \<open>\<^verbatim>\<open>try { space?.removeAllListeners(); space?.leave(); } finally { ... }\<close>: there is
  no \<^verbatim>\<open>catch\<close>, so an exception of the SDK leaves \<^verbatim>\<open>leaveSpace\<close> after the
  \<^verbatim>\<open>finally\<close> block has run.  The result is the exception, or \<open>Inr ()\<close>, and the state
  after the block.\<close>

definition leaveSpace :: "SpaceState \<Rightarrow> (js_error + unit) \<times> SpaceState" where
  "leaveSpace s =
     (let outcome =
            (case space s of
               None \<Rightarrow> Inr ()
             | Some sp \<Rightarrow>
                 (case removeAllListeners sp of
                    Some e \<Rightarrow> Inl e
                  | None \<Rightarrow> (case leave sp of Some e \<Rightarrow> Inl e | None \<Rightarrow> Inr ())))
      in (outcome,
          s\<lparr>joinError := None, remoteParticipants := [], isBroadcasting := False,
            localParticipant := None, isJoined := False, spaceEndsAt := None\<rparr>))"

subsection \<open>The event stream\<close>

text \<open>The nine events bound with \<^verbatim>\<open>_space.on\<close>, and the call of \<^verbatim>\<open>leaveSpace\<close> by the
  user interface.  These are all the writers of \<^verbatim>\<open>remoteParticipants\<close>: no other
  function of the provider calls \<^verbatim>\<open>setRemoteParticipants\<close>.\<close>

datatype SpaceEvent =
    ParticipantJoined RemoteParticipant
  | ParticipantLeft RemoteParticipant
  | ActiveSpeakersChanged "ActiveSpeaker list"
  | BroadcastStateChanged bool
  | ParticipantTrackPublished AnyParticipant Track
  | ParticipantTrackSubscribed AnyParticipant Track
  | ParticipantTrackUnpublished AnyParticipant Track
  | ParticipantTrackUnsubscribed AnyParticipant Track
  | ParticipantDisplayNameChanged AnyParticipant
  | LeaveSpace

fun dispatch :: "int \<Rightarrow> SpaceState \<Rightarrow> SpaceEvent \<Rightarrow> SpaceState" where
  "dispatch M s (ParticipantJoined p) = handleParticipantJoined p s"
| "dispatch M s (ParticipantLeft p) = handleParticipantLeft p s"
| "dispatch M s (ActiveSpeakersChanged changes) = handleActiveSpeakerChanged M changes s"
| "dispatch M s (BroadcastStateChanged b) = handleBroadcastStateChange b s"
| "dispatch M s (ParticipantTrackPublished p t) = handleParticipantTrackPublished p t s"
| "dispatch M s (ParticipantTrackSubscribed p t) = handleParticipantTrackSubscribed p t s"
| "dispatch M s (ParticipantTrackUnpublished p t) = handleParticipantTrackUnpublished p t s"
| "dispatch M s (ParticipantTrackUnsubscribed p t) = handleParticipantTrackUnsubscribed p t s"
| "dispatch M s (ParticipantDisplayNameChanged p) = handleParticipantDisplayNameChanged p s"
| "dispatch M s LeaveSpace = snd (leaveSpace s)"

definition runEvents :: "int \<Rightarrow> SpaceState \<Rightarrow> SpaceEvent list \<Rightarrow> SpaceState" where
  "runEvents M s evs = foldl (dispatch M) s evs"

definition connectionIds_of :: "RemoteParticipant list \<Rightarrow> string list" where
  "connectionIds_of roster = map connectionId roster"


section \<open>The device provider (src/context/UserMedia.tsx, src/unnamed/part_002)\<close>

text \<open>The exception with which \<^verbatim>\<open>getUserMedia\<close> rejects, as the \<^verbatim>\<open>catch\<close> blocks read
  it: \<^verbatim>\<open>e.name\<close> and \<^verbatim>\<open>e instanceof DOMException\<close>.\<close>

record MediaError =
  name :: string
  isDOMException :: bool

text \<open>\<^verbatim>\<open>CreateLocalMediaOptions\<close>: a modality is \<^verbatim>\<open>false\<close> or carries constraints, of
  which the providers set \<^verbatim>\<open>deviceId: { exact: ... }\<close> or nothing.  The audio constraints
  always include \<^verbatim>\<open>defaultAudioConstraints\<close> of \<^verbatim>\<open>shared/defaults\<close>, which is not among
  the sources and is not read by any other code.\<close>

datatype MediaOption = Disabled | Constraints "string option"

record CreateLocalMediaOptions =
  audio :: MediaOption
  video :: MediaOption

text \<open>The calls into the SDK and the browser, as parameters of the model:
  \<^item> \<open>getUserMedia\<close> rejects with a \<open>MediaError\<close> or resolves with tracks;
  \<^item> \<open>analyserSetup\<close> is \<^verbatim>\<open>setupLocalMicrophoneAnalyser\<close> up to its state update
    (\<^verbatim>\<open>new AudioContext()\<close> and the wiring of the analyser), \<open>Some e\<close> when it throws;
  \<^item> \<open>publishTracks\<close> and \<open>unpublishTracks\<close> are the methods of the local participant:
    they throw, or return with the participant as the SDK has changed it.\<close>

record Sdk =
  getUserMedia :: "CreateLocalMediaOptions \<Rightarrow> MediaError + Track list"
  analyserSetup :: "Track \<Rightarrow> js_error option"
  publishTracks :: "LocalParticipant \<Rightarrow> Track option list \<Rightarrow> js_error + LocalParticipant"
  unpublishTracks :: "LocalParticipant \<Rightarrow> Track list \<Rightarrow> js_error + LocalParticipant"

text \<open>The \<^verbatim>\<open>useState\<close> cells of \<^verbatim>\<open>UserMediaProvider\<close> that the acquisition functions
  write, and the two device ids of \<^verbatim>\<open>UserContext\<close> that they set.  The analyser node is
  identified by the track it listens to.\<close>

record UserMediaState =
  activeMicrophone :: "Track option"
  activeCamera :: "Track option"
  localAudioAnalyser :: "Track option"
  userMediaError :: "string option"
  microphoneDeviceId :: string
  cameraDeviceId :: string

definition microphoneOptions :: "string \<Rightarrow> CreateLocalMediaOptions" where
  "microphoneOptions requestedId =
     \<lparr>audio = (if requestedId \<noteq> [] then Constraints (Some requestedId) else Constraints None),
      video = Disabled\<rparr>"

definition cameraOptions :: "string \<Rightarrow> CreateLocalMediaOptions" where
  "cameraOptions requestedId =
     \<lparr>audio = Disabled,
      video = (if requestedId \<noteq> [] then Constraints (Some requestedId) else Constraints None)\<rparr>"

text \<open>The \<^verbatim>\<open>catch\<close> block of \<^verbatim>\<open>getMicrophone\<close>, \<^verbatim>\<open>getCamera\<close> in
  \<^verbatim>\<open>src/context/UserMedia.tsx\<close>: the string passed to \<^verbatim>\<open>setUserMediaError\<close>.\<close>

definition recordedError :: "MediaError \<Rightarrow> string" where
  "recordedError e =
     (if name e \<in> set [''NotAllowedError'', ''PermissionDeniedError''] \<or> isDOMException e
      then ''NotAllowedError''
      else if name e \<in> set [''OverconstrainedError'', ''ConstraintNotSatisfiedError'']
      then ''OverconstrainedError''
      else name e)"

text \<open>\<^verbatim>\<open>tracks.forEach\<close> of \<^verbatim>\<open>getMicrophone\<close>.  The tracks are objects: \<^verbatim>\<open>track.mute()\<close>
  changes the track that \<^verbatim>\<open>tracks[0]\<close> and \<^verbatim>\<open>activeMicrophone\<close> refer to, so the
  loop returns the tracks as it leaves them.  An exception of the analyser setup ends the
  loop after \<^verbatim>\<open>setActiveMicrophone\<close>.\<close>

fun microphoneTracks ::
  "Sdk \<Rightarrow> bool \<Rightarrow> Track list \<Rightarrow> UserMediaState \<Rightarrow> (js_error + Track list) \<times> UserMediaState" where
  "microphoneTracks sdk userWantsMicMuted [] st = (Inr [], st)"
| "microphoneTracks sdk userWantsMicMuted (track # rest) st =
     (if source track = Microphone then
        (case analyserSetup sdk track of
           Some e \<Rightarrow> (Inl e, st\<lparr>activeMicrophone := Some track\<rparr>)
         | None \<Rightarrow>
             (let track' = (if userWantsMicMuted then track\<lparr>muted := True\<rparr> else track);
                  st1 = st\<lparr>activeMicrophone := Some track', localAudioAnalyser := Some track'\<rparr>;
                  st2 = (case deviceId track of
                           Some d \<Rightarrow> if d \<noteq> [] then st1\<lparr>microphoneDeviceId := d\<rparr> else st1
                         | None \<Rightarrow> st1)
              in case microphoneTracks sdk userWantsMicMuted rest st2 of
                   (Inl e, st3) \<Rightarrow> (Inl e, st3)
                 | (Inr rest', st3) \<Rightarrow> (Inr (track' # rest'), st3)))
      else
        (case microphoneTracks sdk userWantsMicMuted rest st of
           (Inl e, st3) \<Rightarrow> (Inl e, st3)
         | (Inr rest', st3) \<Rightarrow> (Inr (track # rest'), st3)))"

fun cameraTracks :: "Track list \<Rightarrow> UserMediaState \<Rightarrow> UserMediaState" where
  "cameraTracks [] st = st"
| "cameraTracks (track # rest) st =
     (if source track = Camera then
        (let st1 = st\<lparr>activeCamera := Some track\<rparr>;
             st2 = (case deviceId track of
                      Some d \<Rightarrow> if d \<noteq> [] then st1\<lparr>cameraDeviceId := d\<rparr> else st1
                    | None \<Rightarrow> st1)
         in cameraTracks rest st2)
      else cameraTracks rest st)"

text \<open>\<^verbatim>\<open>tracks[0]\<close>: \<^verbatim>\<open>undefined\<close> on an empty array.\<close>

definition firstTrack :: "Track list \<Rightarrow> Track option" where
  "firstTrack ts = (case ts of [] \<Rightarrow> None | t # rest \<Rightarrow> Some t)"

text \<open>The body shared by both versions of \<^verbatim>\<open>getMicrophone\<close>; they differ in the string
  their \<^verbatim>\<open>catch\<close> block records, the first parameter.\<close>

definition acquireMicrophone ::
  "(MediaError \<Rightarrow> string) \<Rightarrow> Sdk \<Rightarrow> bool \<Rightarrow> string \<Rightarrow> UserMediaState \<Rightarrow>
     (js_error + Track option) \<times> UserMediaState" where
  "acquireMicrophone onCatch sdk userWantsMicMuted requestedId st =
     (case (case getUserMedia sdk (microphoneOptions requestedId) of
              Inr ts \<Rightarrow> (ts, st)
            | Inl e \<Rightarrow> ([], st\<lparr>userMediaError := Some (onCatch e)\<rparr>)) of
        (ts, st1) \<Rightarrow>
          (case microphoneTracks sdk userWantsMicMuted ts st1 of
             (Inl e, st2) \<Rightarrow> (Inl e, st2)
           | (Inr ts', st2) \<Rightarrow> (Inr (firstTrack ts'), st2)))"

definition acquireCamera ::
  "(MediaError \<Rightarrow> string) \<Rightarrow> Sdk \<Rightarrow> string \<Rightarrow> UserMediaState \<Rightarrow>
     (js_error + Track option) \<times> UserMediaState" where
  "acquireCamera onCatch sdk requestedId st =
     (case (case getUserMedia sdk (cameraOptions requestedId) of
              Inr ts \<Rightarrow> (ts, st)
            | Inl e \<Rightarrow> ([], st\<lparr>userMediaError := Some (onCatch e)\<rparr>)) of
        (ts, st1) \<Rightarrow> (Inr (firstTrack ts), cameraTracks ts st1))"

text \<open>\<^verbatim>\<open>src/context/UserMedia.tsx\<close>.\<close>

definition getMicrophone ::
  "Sdk \<Rightarrow> bool \<Rightarrow> string \<Rightarrow> UserMediaState \<Rightarrow> (js_error + Track option) \<times> UserMediaState" where
  "getMicrophone = acquireMicrophone recordedError"

definition getCamera ::
  "Sdk \<Rightarrow> string \<Rightarrow> UserMediaState \<Rightarrow> (js_error + Track option) \<times> UserMediaState" where
  "getCamera = acquireCamera recordedError"

text \<open>\<^verbatim>\<open>src/unnamed/part_002\<close>: \<^verbatim>\<open>catch (e: any) { setUserMediaError(e.name); }\<close>.\<close>

definition getMicrophone_part_002 ::
  "Sdk \<Rightarrow> bool \<Rightarrow> string \<Rightarrow> UserMediaState \<Rightarrow> (js_error + Track option) \<times> UserMediaState" where
  "getMicrophone_part_002 = acquireMicrophone name"

definition getCamera_part_002 ::
  "Sdk \<Rightarrow> string \<Rightarrow> UserMediaState \<Rightarrow> (js_error + Track option) \<times> UserMediaState" where
  "getCamera_part_002 = acquireCamera name"

section \<open>Publishing devices (src/unnamed/part_001)\<close>

text \<open>The accessors of the SDK's local participant.\<close>

definition getTracks :: "LocalParticipant \<Rightarrow> Track list" where
  "getTracks lp = tracks lp"

definition getAudioTracks :: "LocalParticipant \<Rightarrow> Track list" where
  "getAudioTracks lp = filter (\<lambda>t. kind t = Audio) (tracks lp)"

text \<open>The names of the specification's error taxonomy for the exceptions that the
  provider throws.\<close>

definition NotJoined :: js_error where
  "NotJoined = Error ''Join a space before publishing a device.''"

definition AlreadyPublished :: js_error where
  "AlreadyPublished = Error ''That microphone is already published.''"

definition NotJoined_unpublish :: js_error where
  "NotJoined_unpublish = Error ''Join a space and publish a device before un-publishing.''"

text \<open>\<^verbatim>\<open>micTrack.mute()\<close> after the publication: the track is an object that the
  participant's track list refers to as well; an entry equal to it stands for it.\<close>

definition muteTrack :: "Track \<Rightarrow> LocalParticipant \<Rightarrow> LocalParticipant" where
  "muteTrack t lp = lp\<lparr>tracks := map (\<lambda>x. if x = t then x\<lparr>muted := True\<rparr> else x) (tracks lp)\<rparr>"

text \<open>\<^verbatim>\<open>publishMicrophone\<close> is an \<^verbatim>\<open>async\<close> function: what it throws is the rejection of
  the promise it returns, here the left injection of the result.\<close>

definition publishMicrophone ::
  "Sdk \<Rightarrow> bool \<Rightarrow> string \<Rightarrow> SpaceState \<times> UserMediaState \<Rightarrow>
     (js_error + unit) \<times> SpaceState \<times> UserMediaState" where
  "publishMicrophone sdk userWantsMicMuted requestedId = (\<lambda>(s, st).
     (case localParticipant s of
        None \<Rightarrow> (Inl NotJoined, s, st)
      | Some lp \<Rightarrow>
          (case getMicrophone sdk userWantsMicMuted requestedId st of
             (Inl e, st1) \<Rightarrow> (Inl e, s, st1)
           | (Inr micTrack, st1) \<Rightarrow>
               (case find (\<lambda>t. source t = Microphone \<and> deviceId t = Some requestedId)
                       (getAudioTracks lp) of
                  Some publishedMic \<Rightarrow> (Inl AlreadyPublished, s, st1)
                | None \<Rightarrow>
                    (case publishTracks sdk lp [micTrack] of
                       Inl e \<Rightarrow> (Inl e, s, st1)
                     | Inr lp' \<Rightarrow>
                         (if userWantsMicMuted then
                            (case micTrack of
                               None \<Rightarrow>
                                 (Inl (TypeError ''Cannot read properties of undefined''),
                                  s\<lparr>localParticipant := Some lp'\<rparr>, st1)
                             | Some t \<Rightarrow>
                                 (Inr (), s\<lparr>localParticipant := Some (muteTrack t lp')\<rparr>, st1))
                          else (Inr (), s\<lparr>localParticipant := Some lp'\<rparr>, st1)))))))"

definition unPublishDevice :: "Sdk \<Rightarrow> string \<Rightarrow> SpaceState \<Rightarrow> (js_error + unit) \<times> SpaceState" where
  "unPublishDevice sdk requestedId s =
     (case localParticipant s of
        None \<Rightarrow> (Inl NotJoined_unpublish, s)
      | Some lp \<Rightarrow>
          (case find (\<lambda>track. deviceId track = Some requestedId) (getTracks lp) of
             None \<Rightarrow> (Inr (), s)
           | Some published \<Rightarrow>
               (case unpublishTracks sdk lp [published] of
                  Inl e \<Rightarrow> (Inl e, s)
                | Inr lp' \<Rightarrow> (Inr (), s\<lparr>localParticipant := Some lp'\<rparr>))))"


section \<open>Notions of the specification\<close>

text \<open>The roster \<open>ys\<close> is the stable partition of \<open>xs\<close> by \<open>P\<close>: in \<open>ys\<close> nothing that
  satisfies \<open>P\<close> comes after something that does not, and each of the two parts keeps the
  order it has in \<open>xs\<close>.\<close>

definition stable_partition_of :: "('a \<Rightarrow> bool) \<Rightarrow> 'a list \<Rightarrow> 'a list \<Rightarrow> bool" where
  "stable_partition_of P xs ys \<longleftrightarrow>
     list_all (\<lambda>y. \<not> P y) (dropWhile P ys) \<and>
     filter P ys = filter P xs \<and>
     filter (\<lambda>y. \<not> P y) ys = filter (\<lambda>y. \<not> P y) xs"

text \<open>The classification of an acquisition failure in the specification's words:
  permission denied exactly when the user declined access (the browser's
  \<^verbatim>\<open>NotAllowedError\<close>, formerly \<^verbatim>\<open>PermissionDeniedError\<close>), constraint unsatisfiable exactly
  when the constraints cannot be met (\<^verbatim>\<open>OverconstrainedError\<close>, formerly
  \<^verbatim>\<open>ConstraintNotSatisfiedError\<close>), the error's own name otherwise.\<close>

definition recordedError_spec :: "MediaError \<Rightarrow> string" where
  "recordedError_spec e =
     (if name e \<in> set [''NotAllowedError'', ''PermissionDeniedError'']
      then ''NotAllowedError''
      else if name e \<in> set [''OverconstrainedError'', ''ConstraintNotSatisfiedError'']
      then ''OverconstrainedError''
      else name e)"

section \<open>Values for the examples\<close>

definition exampleRemote :: "string \<Rightarrow> bool \<Rightarrow> RemoteParticipant" where
  "exampleRemote cid sub = \<lparr>connectionId = cid, displayName = cid, isSubscribed = sub\<rparr>"

definition exampleSpeaker :: "string \<Rightarrow> ActiveSpeaker" where
  "exampleSpeaker cid = \<lparr>participant = Remote (exampleRemote cid True)\<rparr>"

definition exampleScreenTrack :: Track where
  "exampleScreenTrack =
     \<lparr>source = Screenshare, kind = Video, deviceId = None, hasMedia = True, muted = False\<rparr>"

definition exampleMicTrack :: Track where
  "exampleMicTrack =
     \<lparr>source = Microphone, kind = Audio, deviceId = Some ''mic1'', hasMedia = True,
      muted = False\<rparr>"

definition exampleLocal :: LocalParticipant where
  "exampleLocal = \<lparr>connectionId = ''me'', displayName = ''Me'', tracks = []\<rparr>"

text \<open>A joined session whose SDK throws when it is left.\<close>

definition exampleJoined :: SpaceState where
  "exampleJoined =
     \<lparr>space = Some \<lparr>removeAllListeners = None, leave = Some (Error ''connection lost'')\<rparr>,
      spaceEndsAt = Some 7200, localParticipant = Some exampleLocal, remoteParticipants = [],
      isJoined = True, joinError = None, isBroadcasting = True, screenShareTrack = None,
      screenShareError = None, participantScreenSharing = None\<rparr>"

definition exampleMedia :: UserMediaState where
  "exampleMedia =
     \<lparr>activeMicrophone = None, activeCamera = None, localAudioAnalyser = None,
      userMediaError = None, microphoneDeviceId = [], cameraDeviceId = []\<rparr>"

text \<open>An SDK for the examples: \<open>getUserMedia\<close> has the given outcome for every request, a
  published track joins the participant's tracks (\<^verbatim>\<open>undefined\<close> is refused), an unpublished
  one leaves them.\<close>

definition exampleSdk :: "MediaError + Track list \<Rightarrow> Sdk" where
  "exampleSdk outcome =
     \<lparr>getUserMedia = (\<lambda>options. outcome),
      analyserSetup = (\<lambda>track. None),
      publishTracks = (\<lambda>lp ts.
         if None \<in> set ts then Inl (Error ''not a track'')
         else Inr (lp\<lparr>tracks := tracks lp @ List.map_filter id ts\<rparr>)),
      unpublishTracks = (\<lambda>lp ts. Inr (lp\<lparr>tracks := filter (\<lambda>t. t \<notin> set ts) (tracks lp)\<rparr>))\<rparr>"

definition exampleRoster :: SpaceState where
  "exampleRoster =
     exampleJoined\<lparr>remoteParticipants :=
       [exampleRemote ''p1'' True, exampleRemote ''p2'' False, exampleRemote ''p3'' True,
        exampleRemote ''p4'' False]\<rparr>"

section \<open>Array lemmas\<close>

lemma findIndex_neg_iff: "findIndex P xs < 0 \<longleftrightarrow> (\<forall>x \<in> set xs. \<not> P x)"
  by (induction xs) (auto simp: Let_def)

lemma findIndex_first:
  "findIndex P xs = int i \<Longrightarrow> i < length xs \<and> P (xs ! i) \<and> (\<forall>j < i. \<not> P (xs ! j))"
proof (induction xs arbitrary: i)
  case Nil
  then show ?case by simp
next
  case (Cons x xs)
  show ?case
  proof (cases "P x")
    case True
    with Cons.prems show ?thesis by simp
  next
    case False
    with Cons.prems have nn: "\<not> findIndex P xs < 0" and eq: "findIndex P xs + 1 = int i"
      by (auto simp: Let_def split: if_splits)
    then obtain k where k: "i = Suc k" "findIndex P xs = int k"
      by (cases i) auto
    from Cons.IH[OF k(2)] False k(1) show ?thesis
      by (auto simp: nth_Cons split: nat.splits)
  qed
qed

lemma findIndex_eqI:
  "i < length xs \<Longrightarrow> P (xs ! i) \<Longrightarrow> (\<forall>j < i. \<not> P (xs ! j)) \<Longrightarrow> findIndex P xs = int i"
proof (induction xs arbitrary: i)
  case Nil
  then show ?case by simp
next
  case (Cons x xs)
  show ?case
  proof (cases i)
    case 0
    with Cons.prems show ?thesis by simp
  next
    case (Suc k)
    with Cons.prems have "\<not> P x" by auto
    moreover from Cons.prems Suc have "findIndex P xs = int k"
      by (intro Cons.IH) auto
    ultimately show ?thesis using Suc by (simp add: Let_def)
  qed
qed

lemma splice_at_nat: "i < length xs \<Longrightarrow> splice_at (int i) xs = take i xs @ drop (Suc i) xs"
  by (simp add: splice_at_def Let_def min_def)

lemma set_splice_at: "set (splice_at k xs) \<subseteq> set xs"
  by (auto simp: splice_at_def Let_def dest: in_set_takeD in_set_dropD)

lemma distinct_map_splice_at: "distinct (map f xs) \<Longrightarrow> distinct (map f (splice_at k xs))"
proof -
  assume d: "distinct (map f xs)"
  have *: "distinct (take n (map f xs) @ drop (Suc n) (map f xs))" for n
    using d set_take_disj_set_drop_if_distinct[of "map f xs" n "Suc n"]
    by (simp add: distinct_append)
  show ?thesis using * by (simp add: splice_at_def Let_def take_map drop_map)
qed

text \<open>After the splice at the index that \<open>findIndex\<close> returns, no entry carries the key:
  either the only entry with it has been removed, or there was none (and the splice at
  \<open>-1\<close> has removed the last entry).\<close>

lemma findIndex_absent_after_splice:
  assumes d: "distinct (map f xs)"
  shows "c \<notin> f ` set (splice_at (findIndex (\<lambda>p. f p = c) xs) xs)"
proof (cases "findIndex (\<lambda>p. f p = c) xs < 0")
  case True
  then have "c \<notin> f ` set xs" by (auto simp: findIndex_neg_iff)
  then show ?thesis using set_splice_at[of _ xs] by blast
next
  case False
  then obtain i where i: "findIndex (\<lambda>p. f p = c) xs = int i"
    by (metis nat_0_le not_le_imp_less)
  from findIndex_first[OF i] have lt: "i < length xs" and at: "f (xs ! i) = c" by auto
  have "map f xs = take i (map f xs) @ map f xs ! i # drop (Suc i) (map f xs)"
    using lt by (intro id_take_nth_drop) simp
  moreover have "map f xs ! i = c" using lt at by simp
  ultimately have ys: "take i (map f xs) @ c # drop (Suc i) (map f xs) = map f xs"
    by simp
  have "distinct (take i (map f xs) @ c # drop (Suc i) (map f xs))"
    by (subst ys) (rule d)
  then have "c \<notin> set (take i (map f xs))" and "c \<notin> set (drop (Suc i) (map f xs))"
    by auto
  then show ?thesis using i lt by (auto simp: splice_at_nat take_map drop_map)
qed

lemma dropWhile_filter_neg: "dropWhile P (filter (\<lambda>x. \<not> P x) xs) = filter (\<lambda>x. \<not> P x) xs"
  by (induction xs) auto

lemma dropWhile_filter_append: "dropWhile P (filter P xs @ ys) = dropWhile P ys"
  by (induction xs) auto

lemma stable_partition_of_filters:
  "stable_partition_of P xs (filter P xs @ filter (\<lambda>x. \<not> P x) xs)"
  by (simp add: stable_partition_of_def dropWhile_filter_append dropWhile_filter_neg list_all_iff)

lemma partition_order:
  assumes ys: "ys = filter P xs @ filter (\<lambda>x. \<not> P x) xs"
    and ij: "i < j" "j < length ys" and Pj: "P (ys ! j)"
  shows "P (ys ! i)"
proof -
  have "j < length (filter P xs)"
  proof (rule ccontr)
    assume "\<not> j < length (filter P xs)"
    then have "ys ! j \<in> set (filter (\<lambda>x. \<not> P x) xs)"
      using ij ys by (simp add: nth_append del: set_filter)
    with Pj show False by simp
  qed
  with ij have "ys ! i \<in> set (filter P xs)" using ys by (simp add: nth_append del: set_filter)
  then show ?thesis by simp
qed

lemma distinct_map_partition:
  "distinct (map f xs) \<Longrightarrow> distinct (map f (filter P xs @ filter (\<lambda>x. \<not> P x) xs))"
  by (induction xs) auto

section \<open>The roster updaters keep connection ids unique\<close>

lemma joined_idempotent:
  "connectionId p \<in> set (connectionIds_of old) \<Longrightarrow> handleParticipantJoined_updater p old = old"
  by (auto simp: handleParticipantJoined_updater_def connectionIds_of_def find_None_iff
      split: option.splits)

lemma joined_distinct:
  "distinct (connectionIds_of old) \<Longrightarrow>
     distinct (connectionIds_of (handleParticipantJoined_updater p old))"
  by (auto simp: handleParticipantJoined_updater_def connectionIds_of_def find_None_iff
      split: option.splits)

lemma left_distinct:
  "distinct (connectionIds_of old) \<Longrightarrow>
     distinct (connectionIds_of (handleParticipantLeft_updater p old))"
  by (simp add: handleParticipantLeft_updater_def connectionIds_of_def distinct_map_filter)

lemma activeSpeakerStep_distinct:
  "distinct (connectionIds_of updated) \<Longrightarrow>
     distinct (connectionIds_of (activeSpeakerStep M updated a))"
  unfolding connectionIds_of_def activeSpeakerStep_def
  using findIndex_absent_after_splice[of connectionId updated]
  by (auto simp: Let_def distinct_map_splice_at split: AnyParticipant.splits)

lemma activeSpeaker_distinct:
  "distinct (connectionIds_of old) \<Longrightarrow>
     distinct (connectionIds_of (handleActiveSpeakerChanged_updater M changes old))"
  unfolding handleActiveSpeakerChanged_updater_def
  by (induction changes arbitrary: old) (auto simp: activeSpeakerStep_distinct)

lemma setDisplayNameOfFirst_ids:
  "map connectionId (setDisplayNameOfFirst c n xs) = map connectionId xs"
  by (induction xs) auto

lemma displayName_distinct:
  "distinct (connectionIds_of old) \<Longrightarrow>
     distinct (connectionIds_of (handleParticipantDisplayNameChanged_updater p old))"
  by (simp add: handleParticipantDisplayNameChanged_updater_def connectionIds_of_def
      setDisplayNameOfFirst_ids)

lemma replaceChanged_id: "connectionId (replaceChanged c p) = connectionId p"
  by (simp add: replaceChanged_def)

lemma reorder_distinct:
  assumes d: "distinct (connectionIds_of old)"
  shows "distinct (connectionIds_of (reorderRemoteParticipantsBySubscription_updater p old))"
proof -
  have "map connectionId (map (replaceChanged p) old) = map connectionId old"
    by (simp add: replaceChanged_id)
  with d have "distinct (map connectionId (map (replaceChanged p) old))"
    by (simp only: connectionIds_of_def)
  from distinct_map_partition[OF this] show ?thesis
    by (simp only: reorderRemoteParticipantsBySubscription_updater_def Let_def
        connectionIds_of_def)
qed

lemma dispatch_distinct:
  assumes d: "distinct (connectionIds_of (remoteParticipants s))"
  shows "distinct (connectionIds_of (remoteParticipants (dispatch M s e)))"
proof (cases e)
  case (ParticipantTrackSubscribed p t)
  then show ?thesis using d
    by (cases p) (auto simp: handleParticipantTrackSubscribed_def setupScreenShare_def Let_def
        reorderRemoteParticipantsBySubscription_def reorder_distinct)
next
  case (ParticipantTrackUnsubscribed p t)
  then show ?thesis using d
    by (cases p) (auto simp: handleParticipantTrackUnsubscribed_def tearDownScreenShare_def
        Let_def reorderRemoteParticipantsBySubscription_def reorder_distinct)
next
  case (ParticipantDisplayNameChanged p)
  then show ?thesis using d
    by (cases p) (auto simp: handleParticipantDisplayNameChanged_def displayName_distinct)
next
  case LeaveSpace
  then show ?thesis by (simp add: leaveSpace_def Let_def connectionIds_of_def)
qed (use d in \<open>auto simp: handleParticipantJoined_def joined_distinct handleParticipantLeft_def
      left_distinct handleActiveSpeakerChanged_def activeSpeaker_distinct
      handleBroadcastStateChange_def handleParticipantTrackPublished_def setupScreenShare_def
      handleParticipantTrackUnpublished_def tearDownScreenShare_def\<close>)

lemma runEvents_distinct:
  "distinct (connectionIds_of (remoteParticipants s)) \<Longrightarrow>
     distinct (connectionIds_of (remoteParticipants (runEvents M s evs)))"
  unfolding runEvents_def
  by (induction evs arbitrary: s) (auto simp: dispatch_distinct)

section \<open>Uniqueness of connection ids (C5)\<close>

text \<open>
  Claim C5.  Connection identifiers are unique within the roster in every reachable state.
  The states are those that the event handlers and \<^verbatim>\<open>leaveSpace\<close> produce from the initial
  state of the provider, in any order and for any page size; every single step preserves
  uniqueness from any state that has it.  The participant-joined handler is idempotent: an
  event whose connection id is already in the roster leaves the state as it is, so the
  roster keeps its length and gets no second entry.
\<close>

theorem roster_connectionIds_unique:
  "distinct (connectionIds_of (remoteParticipants (runEvents M initialState evs))) \<and>
   (distinct (connectionIds_of (remoteParticipants s)) \<longrightarrow>
      distinct (connectionIds_of (remoteParticipants (dispatch M s ev))) \<and>
      distinct (connectionIds_of (remoteParticipants (runEvents M s evs)))) \<and>
   (connectionId newParticipant \<in> set (connectionIds_of (remoteParticipants s)) \<longrightarrow>
      handleParticipantJoined newParticipant s = s \<and>
      length (remoteParticipants (handleParticipantJoined newParticipant s)) =
        length (remoteParticipants s))"
proof -
  have "distinct (connectionIds_of (remoteParticipants initialState))"
    by (simp add: initialState_def connectionIds_of_def)
  then have "distinct (connectionIds_of (remoteParticipants (runEvents M initialState evs)))"
    by (rule runEvents_distinct)
  moreover have "handleParticipantJoined newParticipant s = s"
    if "connectionId newParticipant \<in> set (connectionIds_of (remoteParticipants s))"
    using joined_idempotent[OF that] by (simp add: handleParticipantJoined_def)
  ultimately show ?thesis
    by (auto simp: dispatch_distinct runEvents_distinct)
qed

text \<open>Witness of C5: two participants join, the first one joins again, the second one speaks
  and changes its subscription; the roster holds each id once, and a further join event of
  \<open>p1\<close> changes nothing.\<close>

theorem roster_connectionIds_unique_witness:
  "connectionIds_of (remoteParticipants (runEvents 2 initialState
       [ParticipantJoined (exampleRemote ''p1'' True), ParticipantJoined (exampleRemote ''p2'' False),
        ParticipantJoined (exampleRemote ''p1'' False), ActiveSpeakersChanged [exampleSpeaker ''p2''],
        ParticipantTrackSubscribed (Remote (exampleRemote ''p1'' False)) exampleMicTrack])) =
     [''p2'', ''p1''] \<and>
   distinct (connectionIds_of (remoteParticipants (runEvents 2 initialState
       [ParticipantJoined (exampleRemote ''p1'' True), ParticipantJoined (exampleRemote ''p2'' False),
        ParticipantJoined (exampleRemote ''p1'' False), ActiveSpeakersChanged [exampleSpeaker ''p2''],
        ParticipantTrackSubscribed (Remote (exampleRemote ''p1'' False)) exampleMicTrack]))) \<and>
   handleParticipantJoined (exampleRemote ''p1'' False) exampleRoster = exampleRoster"
  using roster_connectionIds_unique[of 2
      "[ParticipantJoined (exampleRemote ''p1'' True), ParticipantJoined (exampleRemote ''p2'' False),
        ParticipantJoined (exampleRemote ''p1'' False), ActiveSpeakersChanged [exampleSpeaker ''p2''],
        ParticipantTrackSubscribed (Remote (exampleRemote ''p1'' False)) exampleMicTrack]"
      exampleRoster LeaveSpace "exampleRemote ''p1'' False"]
  by (simp add: runEvents_def initialState_def exampleRemote_def exampleSpeaker_def
      exampleRoster_def exampleJoined_def connectionIds_of_def handleParticipantJoined_def
      handleParticipantJoined_updater_def handleActiveSpeakerChanged_def
      handleActiveSpeakerChanged_updater_def activeSpeakerStep_def splice_at_def
      handleParticipantTrackSubscribed_def reorderRemoteParticipantsBySubscription_def
      reorderRemoteParticipantsBySubscription_updater_def replaceChanged_def exampleMicTrack_def
      Let_def)

section \<open>Active speakers (C3)\<close>

lemma activeSpeakerStep_found:
  assumes d: "distinct (connectionIds_of cur)" and lt: "i < length cur"
    and at: "connectionId (cur ! i) = connectionId rp" and c: "participant c = Remote rp"
  shows "activeSpeakerStep M cur c =
           (if M - 1 \<le> int i then rp # take i cur @ drop (Suc i) cur else cur)"
proof -
  have "\<forall>j < i. connectionId (cur ! j) \<noteq> connectionId rp"
  proof (intro allI impI notI)
    fix j assume j: "j < i" and e: "connectionId (cur ! j) = connectionId rp"
    from d j lt have "map connectionId cur ! j \<noteq> map connectionId cur ! i"
      by (auto simp: connectionIds_of_def distinct_conv_nth)
    with j lt e at show False by simp
  qed
  with lt at have "findIndex (\<lambda>p. connectionId p = connectionId rp) cur = int i"
    by (intro findIndex_eqI) auto
  with lt c show ?thesis by (simp add: activeSpeakerStep_def splice_at_nat)
qed

lemma updater_append:
  "handleActiveSpeakerChanged_updater M (pre @ post) old =
     handleActiveSpeakerChanged_updater M post (handleActiveSpeakerChanged_updater M pre old)"
  by (simp add: handleActiveSpeakerChanged_updater_def)

lemma updater_single:
  "handleActiveSpeakerChanged_updater M [c] old = activeSpeakerStep M old c"
  by (simp add: handleActiveSpeakerChanged_updater_def)

text \<open>
  Counterexample to claim C3 as stated, with page size 3 and the roster \<open>p1, p2, p3, p4\<close>.
  The event stores the roster after the whole batch.  In the batch \<open>p2, p4\<close> the
  participant \<open>p2\<close> is at index 1, below \<open>3 - 1\<close>, and ends at index 2, because \<open>p4\<close> is
  moved in front of it.  In the batch \<open>p4, p3\<close> the participant \<open>p4\<close> is at index 3 and
  ends at index 1, not 0, because \<open>p3\<close> is moved to the front after it.
\<close>

theorem activeSpeaker_batch_displaces:
  "connectionIds_of (remoteParticipants exampleRoster) = [''p1'', ''p2'', ''p3'', ''p4''] \<and>
   connectionIds_of (remoteParticipants (handleActiveSpeakerChanged 3
       [exampleSpeaker ''p2'', exampleSpeaker ''p4''] exampleRoster)) =
     [''p4'', ''p1'', ''p2'', ''p3''] \<and>
   connectionIds_of (remoteParticipants (handleActiveSpeakerChanged 3
       [exampleSpeaker ''p4'', exampleSpeaker ''p3''] exampleRoster)) =
     [''p3'', ''p4'', ''p1'', ''p2'']"
  by (simp add: exampleSpeaker_def exampleRemote_def exampleRoster_def exampleJoined_def
      connectionIds_of_def handleActiveSpeakerChanged_def handleActiveSpeakerChanged_updater_def
      activeSpeakerStep_def splice_at_def Let_def)

text \<open>
  Claim C3, amended.  For every roster with unique connection ids, every page size \<open>M\<close> and
  every batch of active-speaker changes, the changes are applied in order, each to the
  roster that the changes before it have left.  Take the change \<open>c\<close> of a remote participant
  \<open>rp\<close> that is the last one of the batch \<open>pre @ [c]\<close>, and the roster \<open>cur\<close> after the
  changes \<open>pre\<close>, with \<open>rp\<close> at index \<open>i\<close> of it.  If \<open>i\<close> is at or beyond \<open>M - 1\<close>, the
  roster that the event stores has the participant at index 0 and the other entries of
  \<open>cur\<close> in their order; if \<open>i\<close> is strictly below \<open>M - 1\<close>, the stored roster is \<open>cur\<close>, so
  the participant stays at index \<open>i\<close>.  This covers every event with a single change
  (\<open>pre\<close> empty, \<open>cur\<close> the previous roster).  When changes \<open>post\<close> follow \<open>c\<close> in the batch,
  the stored roster is the result of applying them to that roster, and they may move the
  participant again.
\<close>

theorem activeSpeaker_moved_to_front:
  assumes c: "participant c = Remote rp"
    and cur: "cur = remoteParticipants (handleActiveSpeakerChanged M pre s)"
    and d: "distinct (connectionIds_of cur)"
    and lt: "i < length cur"
    and at: "connectionId (cur ! i) = connectionId rp"
  shows "(M - 1 \<le> int i \<longrightarrow>
            remoteParticipants (handleActiveSpeakerChanged M (pre @ [c]) s) =
              rp # take i cur @ drop (Suc i) cur \<and>
            remoteParticipants (handleActiveSpeakerChanged M (pre @ [c]) s) ! 0 = rp) \<and>
         (int i < M - 1 \<longrightarrow>
            remoteParticipants (handleActiveSpeakerChanged M (pre @ [c]) s) = cur \<and>
            connectionId (remoteParticipants (handleActiveSpeakerChanged M (pre @ [c]) s) ! i) =
              connectionId rp) \<and>
         remoteParticipants (handleActiveSpeakerChanged M (pre @ c # post) s) =
           handleActiveSpeakerChanged_updater M post
             (remoteParticipants (handleActiveSpeakerChanged M (pre @ [c]) s))"
proof -
  have step: "remoteParticipants (handleActiveSpeakerChanged M (pre @ [c]) s) =
      activeSpeakerStep M cur c"
    by (simp add: handleActiveSpeakerChanged_def cur updater_append updater_single)
  have rest: "remoteParticipants (handleActiveSpeakerChanged M (pre @ c # post) s) =
           handleActiveSpeakerChanged_updater M post
             (remoteParticipants (handleActiveSpeakerChanged M (pre @ [c]) s))"
    by (simp add: handleActiveSpeakerChanged_def handleActiveSpeakerChanged_updater_def)
  show ?thesis
    using rest at by (simp add: step activeSpeakerStep_found[OF d lt at c])
qed

text \<open>Witness of C3, with page size 3 and the roster \<open>p1, p2, p3, p4\<close>: as the only
  change, the speaker \<open>p4\<close> at index 3 is moved to the front and the speaker \<open>p2\<close> at index
  1 stays where it is; as the last change of the batch \<open>p2, p4\<close>, the speaker \<open>p4\<close> is
  moved to the front; as the last change of the batch \<open>p4, p1\<close>, the speaker \<open>p1\<close>, by then
  at index 1, stays there.\<close>

theorem activeSpeaker_moved_to_front_witness:
  "connectionIds_of (remoteParticipants
       (handleActiveSpeakerChanged 3 [exampleSpeaker ''p4''] exampleRoster)) =
     [''p4'', ''p1'', ''p2'', ''p3''] \<and>
   connectionIds_of (remoteParticipants
       (handleActiveSpeakerChanged 3 [exampleSpeaker ''p2''] exampleRoster)) =
     [''p1'', ''p2'', ''p3'', ''p4''] \<and>
   connectionIds_of (remoteParticipants
       (handleActiveSpeakerChanged 3 [exampleSpeaker ''p2'', exampleSpeaker ''p4'']
          exampleRoster)) =
     [''p4'', ''p1'', ''p2'', ''p3''] \<and>
   connectionIds_of (remoteParticipants
       (handleActiveSpeakerChanged 3 [exampleSpeaker ''p4'', exampleSpeaker ''p1'']
          exampleRoster)) =
     [''p4'', ''p1'', ''p2'', ''p3'']"
  using activeSpeaker_moved_to_front[where c = "exampleSpeaker ''p4''"
      and rp = "exampleRemote ''p4'' True" and cur = "remoteParticipants exampleRoster"
      and M = 3 and pre = "[]" and s = exampleRoster and i = 3 and post = "[]"]
    activeSpeaker_moved_to_front[where c = "exampleSpeaker ''p2''"
      and rp = "exampleRemote ''p2'' True" and cur = "remoteParticipants exampleRoster"
      and M = 3 and pre = "[]" and s = exampleRoster and i = 1 and post = "[]"]
    activeSpeaker_moved_to_front[where c = "exampleSpeaker ''p4''"
      and rp = "exampleRemote ''p4'' True"
      and cur = "remoteParticipants
                   (handleActiveSpeakerChanged 3 [exampleSpeaker ''p2''] exampleRoster)"
      and M = 3 and pre = "[exampleSpeaker ''p2'']" and s = exampleRoster and i = 3
      and post = "[]"]
    activeSpeaker_moved_to_front[where c = "exampleSpeaker ''p1''"
      and rp = "exampleRemote ''p1'' True"
      and cur = "remoteParticipants
                   (handleActiveSpeakerChanged 3 [exampleSpeaker ''p4''] exampleRoster)"
      and M = 3 and pre = "[exampleSpeaker ''p4'']" and s = exampleRoster and i = 1
      and post = "[]"]
  by (simp add: exampleSpeaker_def exampleRemote_def exampleRoster_def exampleJoined_def
      connectionIds_of_def handleActiveSpeakerChanged_def handleActiveSpeakerChanged_updater_def
      activeSpeakerStep_def splice_at_def Let_def)

section \<open>Subscription changes (C4)\<close>

lemma reorder_map_filter:
  "reorderRemoteParticipantsBySubscription_updater rp old =
     map (replaceChanged rp)
       (filter (\<lambda>p. isSubscribed (replaceChanged rp p)) old @
        filter (\<lambda>p. \<not> isSubscribed (replaceChanged rp p)) old)"
  by (simp add: reorderRemoteParticipantsBySubscription_updater_def filter_map comp_def)

lemma subscribed_roster:
  "remoteParticipants (handleParticipantTrackSubscribed (Remote rp) t s) =
     reorderRemoteParticipantsBySubscription_updater rp (remoteParticipants s)"
  by (simp add: handleParticipantTrackSubscribed_def Let_def setupScreenShare_def
      reorderRemoteParticipantsBySubscription_def)

lemma unsubscribed_roster:
  "remoteParticipants (handleParticipantTrackUnsubscribed (Remote rp) t s) =
     reorderRemoteParticipantsBySubscription_updater rp (remoteParticipants s)"
  by (simp add: handleParticipantTrackUnsubscribed_def Let_def tearDownScreenShare_def
      reorderRemoteParticipantsBySubscription_def)

text \<open>
  Claim C4.  After a track-subscribed or a track-unsubscribed event of a remote participant
  \<open>rp\<close>, the roster \<open>new\<close> is the stable partition by subscription status of the previous
  roster, in which the entry of \<open>rp\<close> is the participant of the event (\<open>updated\<close>): no
  subscribed participant stands after an unsubscribed one, and the subscribed and the
  unsubscribed participants each keep their relative order.  In terms of the previous roster:
  the connection ids of \<open>new\<close> are those of its participants that are now subscribed, in
  their previous order, followed by those that are not, in their previous order.
\<close>

theorem subscription_change_stable_partition:
  assumes ev: "new = remoteParticipants (handleParticipantTrackSubscribed (Remote rp) t s) \<or>
               new = remoteParticipants (handleParticipantTrackUnsubscribed (Remote rp) t s)"
    and upd: "updated = map (replaceChanged rp) (remoteParticipants s)"
  shows "stable_partition_of isSubscribed updated new \<and>
         (\<forall>i j. i < j \<and> j < length new \<and> isSubscribed (new ! j) \<longrightarrow> isSubscribed (new ! i)) \<and>
         new = filter isSubscribed updated @ filter (\<lambda>p. \<not> isSubscribed p) updated \<and>
         connectionIds_of new =
           connectionIds_of
             (filter (\<lambda>p. isSubscribed (replaceChanged rp p)) (remoteParticipants s)) @
           connectionIds_of
             (filter (\<lambda>p. \<not> isSubscribed (replaceChanged rp p)) (remoteParticipants s))"
proof -
  from ev have new: "new = filter isSubscribed updated @ filter (\<lambda>p. \<not> isSubscribed p) updated"
    by (auto simp: subscribed_roster unsubscribed_roster upd Let_def
        reorderRemoteParticipantsBySubscription_updater_def)
  have ids: "connectionIds_of new =
           connectionIds_of
             (filter (\<lambda>p. isSubscribed (replaceChanged rp p)) (remoteParticipants s)) @
           connectionIds_of
             (filter (\<lambda>p. \<not> isSubscribed (replaceChanged rp p)) (remoteParticipants s))"
    using ev by (auto simp: subscribed_roster unsubscribed_roster reorder_map_filter
        connectionIds_of_def replaceChanged_id comp_def)
  have sp: "stable_partition_of isSubscribed updated new"
    unfolding new by (rule stable_partition_of_filters)
  have ord: "\<forall>i j. i < j \<and> j < length new \<and> isSubscribed (new ! j) \<longrightarrow> isSubscribed (new ! i)"
    using partition_order[OF new] by blast
  from sp ord new ids show ?thesis by blast
qed

text \<open>Witness of C4, on the roster \<open>p1\<close> (subscribed), \<open>p2\<close>, \<open>p3\<close> (subscribed), \<open>p4\<close>: when
  \<open>p1\<close> is unsubscribed, \<open>p3\<close> comes first and \<open>p1, p2, p4\<close> follow in their order; when
  \<open>p4\<close> is subscribed, \<open>p1, p3, p4\<close> come first and \<open>p2\<close> follows.\<close>

theorem subscription_change_stable_partition_witness:
  "connectionIds_of (remoteParticipants (handleParticipantTrackUnsubscribed
       (Remote (exampleRemote ''p1'' False)) exampleMicTrack exampleRoster)) =
     [''p3'', ''p1'', ''p2'', ''p4''] \<and>
   connectionIds_of (remoteParticipants (handleParticipantTrackSubscribed
       (Remote (exampleRemote ''p4'' True)) exampleMicTrack exampleRoster)) =
     [''p1'', ''p3'', ''p4'', ''p2'']"
  using subscription_change_stable_partition[where rp = "exampleRemote ''p1'' False"
      and t = exampleMicTrack and s = exampleRoster
      and new = "remoteParticipants (handleParticipantTrackUnsubscribed
                   (Remote (exampleRemote ''p1'' False)) exampleMicTrack exampleRoster)"
      and updated = "map (replaceChanged (exampleRemote ''p1'' False))
                   (remoteParticipants exampleRoster)"]
    subscription_change_stable_partition[where rp = "exampleRemote ''p4'' True"
      and t = exampleMicTrack and s = exampleRoster
      and new = "remoteParticipants (handleParticipantTrackSubscribed
                   (Remote (exampleRemote ''p4'' True)) exampleMicTrack exampleRoster)"
      and updated = "map (replaceChanged (exampleRemote ''p4'' True))
                   (remoteParticipants exampleRoster)"]
  by (simp add: exampleRemote_def exampleRoster_def exampleJoined_def exampleMicTrack_def
      connectionIds_of_def replaceChanged_def)

section \<open>Leaving the space (C1)\<close>

text \<open>
  Counterexample to claim C1 as stated.  A remote participant \<open>p2\<close> publishes a screen-share
  track with media in a joined session, then the user interface calls \<^verbatim>\<open>leaveSpace\<close>
  (here the SDK's \<^verbatim>\<open>leave\<close> throws): the \<^verbatim>\<open>finally\<close> block does not touch the
  screen-share cells, so the track and its owner are still recorded afterwards.
\<close>

theorem leaveSpace_keeps_screenShare:
  "screenShareTrack (snd (leaveSpace (handleParticipantTrackPublished
       (Remote (exampleRemote ''p2'' True)) exampleScreenTrack exampleJoined))) =
     Some exampleScreenTrack \<and>
   participantScreenSharing (snd (leaveSpace (handleParticipantTrackPublished
       (Remote (exampleRemote ''p2'' True)) exampleScreenTrack exampleJoined))) =
     Some (Remote (exampleRemote ''p2'' True)) \<and>
   fst (leaveSpace (handleParticipantTrackPublished
       (Remote (exampleRemote ''p2'' True)) exampleScreenTrack exampleJoined)) =
     Inl (Error ''connection lost'')"
  by (simp add: leaveSpace_def handleParticipantTrackPublished_def setupScreenShare_def
      exampleScreenTrack_def exampleJoined_def)

text \<open>
  Claim C1, amended.  For every session state, and whether \<^verbatim>\<open>removeAllListeners\<close> and
  \<^verbatim>\<open>leave\<close> of the SDK return or throw, after \<^verbatim>\<open>leaveSpace\<close> the roster of remote
  participants is empty, \<^verbatim>\<open>isJoined\<close> and \<^verbatim>\<open>isBroadcasting\<close> are false, and the local
  participant, the join error and the expiry are cleared.  An exception of the SDK reaches
  the caller only after this cleanup.
\<close>

theorem leaveSpace_clears_session:
  "remoteParticipants (snd (leaveSpace s)) = [] \<and>
   isJoined (snd (leaveSpace s)) = False \<and>
   isBroadcasting (snd (leaveSpace s)) = False \<and>
   localParticipant (snd (leaveSpace s)) = None \<and>
   joinError (snd (leaveSpace s)) = None \<and>
   spaceEndsAt (snd (leaveSpace s)) = None \<and>
   (space s = Some sp \<and> removeAllListeners sp = Some e \<longrightarrow> fst (leaveSpace s) = Inl e) \<and>
   (space s = Some sp \<and> removeAllListeners sp = None \<and> leave sp = Some e \<longrightarrow>
      fst (leaveSpace s) = Inl e)"
  by (simp add: leaveSpace_def)

text \<open>Witness of C1: a joined, broadcasting session with four remote participants whose
  SDK throws on \<^verbatim>\<open>leave\<close>.\<close>

theorem leaveSpace_clears_session_witness:
  "remoteParticipants (snd (leaveSpace exampleRoster)) = [] \<and>
   isJoined (snd (leaveSpace exampleRoster)) = False \<and>
   isBroadcasting (snd (leaveSpace exampleRoster)) = False \<and>
   localParticipant (snd (leaveSpace exampleRoster)) = None \<and>
   spaceEndsAt (snd (leaveSpace exampleRoster)) = None \<and>
   fst (leaveSpace exampleRoster) = Inl (Error ''connection lost'')"
  using leaveSpace_clears_session[of exampleRoster
      "\<lparr>removeAllListeners = None, leave = Some (Error ''connection lost'')\<rparr>"
      "Error ''connection lost''"]
  by (simp add: exampleRoster_def exampleJoined_def)

section \<open>Screen share (C6)\<close>



section \<open>Unpublishing a device (C7)\<close>

text \<open>
  Counterexample to claim C7 as stated.  The local participant of a joined session has
  published nothing; \<^verbatim>\<open>unPublishDevice("mic1")\<close> returns normally and changes nothing:
  no exception reaches the caller.
\<close>

theorem unPublishDevice_silent:
  "unPublishDevice (exampleSdk (Inr [exampleMicTrack])) ''mic1'' exampleJoined =
     (Inr (), exampleJoined)"
  by (simp add: unPublishDevice_def exampleJoined_def getTracks_def exampleLocal_def)

text \<open>
  Claim C7, amended.  \<^verbatim>\<open>unPublishDevice(deviceId)\<close> called on an established session
  when the local participant has no track with that device id returns normally: no
  exception reaches the caller and the state is unchanged, whatever the SDK's
  \<^verbatim>\<open>unpublishTracks\<close> would do (the missing publication is ignored).  Called without a local
  participant, it throws \<^verbatim>\<open>Join a space and publish a device before un-publishing.\<close> and
  changes no state.
\<close>

theorem unPublishDevice_missing_publication:
  "(localParticipant s = None \<longrightarrow> unPublishDevice sdk d s = (Inl NotJoined_unpublish, s)) \<and>
   (localParticipant s = Some lp \<and> (\<forall>track \<in> set (getTracks lp). deviceId track \<noteq> Some d) \<longrightarrow>
      unPublishDevice sdk d s = (Inr (), s))"
  by (auto simp: unPublishDevice_def find_Some_iff split: option.splits)

text \<open>Witness of C7: without a session the call throws; with a session and a published
  microphone \<open>mic1\<close>, unpublishing the unknown device \<open>cam9\<close> does nothing.\<close>

theorem unPublishDevice_missing_publication_witness:
  "unPublishDevice (exampleSdk (Inr [])) ''cam9'' initialState =
     (Inl NotJoined_unpublish, initialState) \<and>
   unPublishDevice (exampleSdk (Inr [])) ''cam9''
       (exampleJoined\<lparr>localParticipant := Some (exampleLocal\<lparr>tracks := [exampleMicTrack]\<rparr>)\<rparr>) =
     (Inr (), exampleJoined\<lparr>localParticipant := Some (exampleLocal\<lparr>tracks := [exampleMicTrack]\<rparr>)\<rparr>)"
  using unPublishDevice_missing_publication[of initialState "exampleSdk (Inr [])" "''cam9''"
      exampleLocal]
    unPublishDevice_missing_publication[of
      "exampleJoined\<lparr>localParticipant := Some (exampleLocal\<lparr>tracks := [exampleMicTrack]\<rparr>)\<rparr>"
      "exampleSdk (Inr [])" "''cam9''" "exampleLocal\<lparr>tracks := [exampleMicTrack]\<rparr>"]
  by (simp add: initialState_def getTracks_def exampleMicTrack_def)

section \<open>Failed acquisition (C8, C10)\<close>

lemma acquireMicrophone_rejected:
  "getUserMedia sdk (microphoneOptions d) = Inl e \<Longrightarrow>
     acquireMicrophone f sdk m d st = (Inr None, st\<lparr>userMediaError := Some (f e)\<rparr>)"
  by (simp add: acquireMicrophone_def firstTrack_def)

lemma acquireCamera_rejected:
  "getUserMedia sdk (cameraOptions d) = Inl e \<Longrightarrow>
     acquireCamera f sdk d st = (Inr None, st\<lparr>userMediaError := Some (f e)\<rparr>)"
  by (simp add: acquireCamera_def firstTrack_def)

text \<open>
  Counterexample to claim C8 as stated.  The microphone is in use by another program and
  \<^verbatim>\<open>getUserMedia\<close> rejects with the \<^verbatim>\<open>DOMException\<close> named \<^verbatim>\<open>NotReadableError\<close>; the user
  has not declined access.  \<^verbatim>\<open>getMicrophone\<close> of \<^verbatim>\<open>src/context/UserMedia.tsx\<close> records
  \<^verbatim>\<open>NotAllowedError\<close>, because its first test accepts every \<^verbatim>\<open>DOMException\<close>; by the
  specification's classification this is the generic error \<^verbatim>\<open>NotReadableError\<close>.
\<close>

theorem acquisition_hardware_error_as_denied:
  "userMediaError (snd (getMicrophone
      (exampleSdk (Inl \<lparr>name = ''NotReadableError'', isDOMException = True\<rparr>)) False ''mic1''
      exampleMedia)) = Some ''NotAllowedError'' \<and>
   recordedError_spec \<lparr>name = ''NotReadableError'', isDOMException = True\<rparr> =
     ''NotReadableError''"
  by (simp add: getMicrophone_def acquireMicrophone_def exampleSdk_def firstTrack_def
      recordedError_def recordedError_spec_def)

text \<open>
  Claim C8, amended.  When the underlying acquisition fails with the exception \<open>e\<close>,
  \<^verbatim>\<open>getMicrophone\<close> and \<^verbatim>\<open>getCamera\<close> do not throw: they return \<^verbatim>\<open>undefined\<close> and store an
  error in \<^verbatim>\<open>userMediaError\<close>, changing nothing else.  In \<^verbatim>\<open>src/context/UserMedia.tsx\<close> the
  stored error is \<^verbatim>\<open>NotAllowedError\<close> when \<open>e\<close> is named \<^verbatim>\<open>NotAllowedError\<close> or
  \<^verbatim>\<open>PermissionDeniedError\<close> or is any \<^verbatim>\<open>DOMException\<close>; otherwise \<^verbatim>\<open>OverconstrainedError\<close>
  when \<open>e\<close> is named \<^verbatim>\<open>OverconstrainedError\<close> or \<^verbatim>\<open>ConstraintNotSatisfiedError\<close>; otherwise
  the name of \<open>e\<close>.  For an exception that is not a \<^verbatim>\<open>DOMException\<close> this is the
  classification of the specification.  The version in \<^verbatim>\<open>src/unnamed/part_002\<close> stores the
  name of \<open>e\<close> in every case.
\<close>

theorem acquisition_failure_recorded:
  "(getUserMedia sdk (microphoneOptions d) = Inl e \<longrightarrow>
      getMicrophone sdk m d st =
        (Inr None,
         st\<lparr>userMediaError := Some
              (if name e = ''NotAllowedError'' \<or> name e = ''PermissionDeniedError'' \<or>
                  isDOMException e
               then ''NotAllowedError''
               else if name e = ''OverconstrainedError'' \<or>
                       name e = ''ConstraintNotSatisfiedError''
               then ''OverconstrainedError''
               else name e)\<rparr>) \<and>
      getMicrophone_part_002 sdk m d st = (Inr None, st\<lparr>userMediaError := Some (name e)\<rparr>)) \<and>
   (getUserMedia sdk (cameraOptions d) = Inl e \<longrightarrow>
      getCamera sdk d st =
        (Inr None,
         st\<lparr>userMediaError := Some
              (if name e = ''NotAllowedError'' \<or> name e = ''PermissionDeniedError'' \<or>
                  isDOMException e
               then ''NotAllowedError''
               else if name e = ''OverconstrainedError'' \<or>
                       name e = ''ConstraintNotSatisfiedError''
               then ''OverconstrainedError''
               else name e)\<rparr>) \<and>
      getCamera_part_002 sdk d st = (Inr None, st\<lparr>userMediaError := Some (name e)\<rparr>)) \<and>
   (\<not> isDOMException e \<longrightarrow> recordedError e = recordedError_spec e)"
  by (simp add: getMicrophone_def getMicrophone_part_002_def getCamera_def getCamera_part_002_def
      acquireMicrophone_rejected acquireCamera_rejected recordedError_def recordedError_spec_def)

text \<open>Witness of C8: an exception that is not a \<^verbatim>\<open>DOMException\<close> and is named
  \<^verbatim>\<open>ConstraintNotSatisfiedError\<close> is recorded as \<^verbatim>\<open>OverconstrainedError\<close> by
  \<^verbatim>\<open>src/context/UserMedia.tsx\<close>, under its own name by \<^verbatim>\<open>src/unnamed/part_002\<close>.\<close>

theorem acquisition_failure_recorded_witness:
  "getMicrophone
       (exampleSdk (Inl \<lparr>name = ''ConstraintNotSatisfiedError'', isDOMException = False\<rparr>))
       True ''mic1'' exampleMedia =
     (Inr None, exampleMedia\<lparr>userMediaError := Some ''OverconstrainedError''\<rparr>) \<and>
   getCamera_part_002
       (exampleSdk (Inl \<lparr>name = ''ConstraintNotSatisfiedError'', isDOMException = False\<rparr>))
       ''mic1'' exampleMedia =
     (Inr None, exampleMedia\<lparr>userMediaError := Some ''ConstraintNotSatisfiedError''\<rparr>)"
  using acquisition_failure_recorded[of
      "exampleSdk (Inl \<lparr>name = ''ConstraintNotSatisfiedError'', isDOMException = False\<rparr>)"
      "''mic1''" "\<lparr>name = ''ConstraintNotSatisfiedError'', isDOMException = False\<rparr>"
      True exampleMedia]
  by (simp add: exampleSdk_def)

text \<open>
  Claim C10.  For every device id, when the underlying acquisition throws, \<^verbatim>\<open>getMicrophone\<close>
  and \<^verbatim>\<open>getCamera\<close> (in both versions of the device provider) return normally, and what
  they return is \<^verbatim>\<open>undefined\<close>, the first element of an empty track list.  \<^verbatim>\<open>publishMicrophone\<close> does not check it: with a local
  participant that has no microphone track of that device id published, it calls
  \<^verbatim>\<open>publishTracks([undefined])\<close>, and its outcome is what the SDK makes of that call (followed
  by the \<^verbatim>\<open>TypeError\<close> of \<^verbatim>\<open>micTrack.mute()\<close> when the user wants the microphone muted).
\<close>

theorem acquisition_failure_returns_undefined:
  "(getUserMedia sdk (microphoneOptions d) = Inl e \<longrightarrow>
      fst (getMicrophone sdk m d st) = Inr None \<and>
      fst (getMicrophone_part_002 sdk m d st) = Inr None \<and>
      (localParticipant s = Some lp \<and>
       (\<forall>t \<in> set (getAudioTracks lp). \<not> (source t = Microphone \<and> deviceId t = Some d)) \<longrightarrow>
         fst (publishMicrophone sdk m d (s, st)) =
           (case publishTracks sdk lp [None] of
              Inl x \<Rightarrow> Inl x
            | Inr lp' \<Rightarrow>
                if m then Inl (TypeError ''Cannot read properties of undefined'') else Inr ()))) \<and>
   (getUserMedia sdk (cameraOptions d) = Inl e \<longrightarrow>
      fst (getCamera sdk d st) = Inr None \<and> fst (getCamera_part_002 sdk d st) = Inr None)"
proof -
  have "find (\<lambda>t. source t = Microphone \<and> deviceId t = Some d) (getAudioTracks lp) = None"
    if "\<forall>t \<in> set (getAudioTracks lp). \<not> (source t = Microphone \<and> deviceId t = Some d)"
    using that by (simp add: find_None_iff)
  then show ?thesis
    by (auto simp: getMicrophone_def getCamera_def getMicrophone_part_002_def
        getCamera_part_002_def acquireMicrophone_rejected acquireCamera_rejected
        publishMicrophone_def split: sum.splits)
qed

text \<open>Witness of C10: no microphone is found; both acquisition functions return
  \<^verbatim>\<open>undefined\<close>, and \<^verbatim>\<open>publishMicrophone\<close> hands it to an SDK that refuses it.\<close>

theorem acquisition_failure_returns_undefined_witness:
  "fst (getMicrophone (exampleSdk (Inl \<lparr>name = ''NotFoundError'', isDOMException = True\<rparr>))
         True ''mic1'' exampleMedia) = Inr None \<and>
   fst (getCamera (exampleSdk (Inl \<lparr>name = ''NotFoundError'', isDOMException = True\<rparr>))
         ''mic1'' exampleMedia) = Inr None \<and>
   fst (publishMicrophone (exampleSdk (Inl \<lparr>name = ''NotFoundError'', isDOMException = True\<rparr>))
         True ''mic1'' (exampleJoined, exampleMedia)) = Inl (Error ''not a track'')"
  using acquisition_failure_returns_undefined[of
      "exampleSdk (Inl \<lparr>name = ''NotFoundError'', isDOMException = True\<rparr>)" "''mic1''"
      "\<lparr>name = ''NotFoundError'', isDOMException = True\<rparr>" True exampleMedia exampleJoined
      exampleLocal]
  by (simp add: exampleSdk_def exampleJoined_def exampleLocal_def getAudioTracks_def)

section \<open>Publishing the microphone (C2)\<close>

lemma publishMicrophone_already:
  assumes lp: "localParticipant s = Some lp"
    and pub: "\<exists>t \<in> set (getAudioTracks lp). source t = Microphone \<and> deviceId t = Some d"
    and acq: "getMicrophone sdk m d st = (Inr micTrack, st1)"
  shows "publishMicrophone sdk m d (s, st) = (Inl AlreadyPublished, s, st1)"
proof -
  from pub have
    "find (\<lambda>t. source t = Microphone \<and> deviceId t = Some d) (getAudioTracks lp) \<noteq> None"
    by (auto simp: find_None_iff)
  then obtain t where
    "find (\<lambda>t. source t = Microphone \<and> deviceId t = Some d) (getAudioTracks lp) = Some t"
    by blast
  with lp acq show ?thesis by (simp add: publishMicrophone_def)
qed

text \<open>
  Counterexample to claim C2 as stated.  In a joined session \<^verbatim>\<open>publishMicrophone("")\<close>, the
  request for the default microphone, is called twice with no unpublish in between.  The
  SDK answers each request with the track of the device \<open>mic1\<close>.  The test for an existing
  publication compares the track's device id \<open>mic1\<close> with the requested id, the empty
  string, so the second call does not fail: the microphone is published a second time.
\<close>

theorem publishMicrophone_twice_default_device:
  "fst (publishMicrophone (exampleSdk (Inr [exampleMicTrack])) False []
         (exampleJoined, exampleMedia)) = Inr () \<and>
   fst (publishMicrophone (exampleSdk (Inr [exampleMicTrack])) False []
         (snd (publishMicrophone (exampleSdk (Inr [exampleMicTrack])) False []
            (exampleJoined, exampleMedia)))) = Inr () \<and>
   map_option getAudioTracks (localParticipant (fst (snd
      (publishMicrophone (exampleSdk (Inr [exampleMicTrack])) False []
         (snd (publishMicrophone (exampleSdk (Inr [exampleMicTrack])) False []
            (exampleJoined, exampleMedia))))))) =
     Some [exampleMicTrack, exampleMicTrack]"
  by (simp add: publishMicrophone_def getMicrophone_def acquireMicrophone_def exampleSdk_def
      exampleJoined_def exampleMedia_def exampleLocal_def exampleMicTrack_def
      getAudioTracks_def firstTrack_def microphoneOptions_def List.map_filter_simps Let_def)

text \<open>
  Claim C2, amended.  \<^verbatim>\<open>publishMicrophone(deviceId)\<close> without a local participant fails
  with \<open>NotJoined\<close> and changes no state.  With a local participant whose audio tracks
  contain a microphone track that reports the requested device id, as after a first call
  that published such a track, it fails with \<open>AlreadyPublished\<close> once the acquisition has
  returned: the session state is unchanged, the failure is the outcome of the call and is
  recorded in no state cell.
\<close>

theorem publishMicrophone_preconditions:
  "(localParticipant s = None \<longrightarrow> publishMicrophone sdk m d (s, st) = (Inl NotJoined, s, st)) \<and>
   (localParticipant s = Some lp \<and>
    (\<exists>t \<in> set (getAudioTracks lp). source t = Microphone \<and> deviceId t = Some d) \<and>
    getMicrophone sdk m d st = (Inr micTrack, st1) \<longrightarrow>
      publishMicrophone sdk m d (s, st) = (Inl AlreadyPublished, s, st1))"
  using publishMicrophone_already[of s lp d sdk m st micTrack st1]
  by (auto simp: publishMicrophone_def)

text \<open>Witness of C2: without a session the call fails with \<open>NotJoined\<close>; in a joined
  session the first call for the device \<open>mic1\<close> publishes its track and the second call
  fails with \<open>AlreadyPublished\<close>.\<close>

theorem publishMicrophone_preconditions_witness:
  "publishMicrophone (exampleSdk (Inr [exampleMicTrack])) False ''mic1''
       (initialState, exampleMedia) = (Inl NotJoined, initialState, exampleMedia) \<and>
   fst (publishMicrophone (exampleSdk (Inr [exampleMicTrack])) False ''mic1''
         (exampleJoined, exampleMedia)) = Inr () \<and>
   fst (publishMicrophone (exampleSdk (Inr [exampleMicTrack])) False ''mic1''
         (snd (publishMicrophone (exampleSdk (Inr [exampleMicTrack])) False ''mic1''
            (exampleJoined, exampleMedia)))) = Inl AlreadyPublished"
  using publishMicrophone_preconditions[of initialState "exampleSdk (Inr [exampleMicTrack])"
      False "''mic1''" exampleMedia]
    publishMicrophone_preconditions[of
      "fst (snd (publishMicrophone (exampleSdk (Inr [exampleMicTrack])) False ''mic1''
         (exampleJoined, exampleMedia)))"
      "exampleSdk (Inr [exampleMicTrack])" False "''mic1''"
      "snd (snd (publishMicrophone (exampleSdk (Inr [exampleMicTrack])) False ''mic1''
         (exampleJoined, exampleMedia)))"
      "exampleLocal\<lparr>tracks := [exampleMicTrack]\<rparr>"]
  by (simp add: publishMicrophone_def getMicrophone_def acquireMicrophone_def exampleSdk_def
      exampleJoined_def exampleMedia_def exampleLocal_def exampleMicTrack_def initialState_def
      getAudioTracks_def firstTrack_def microphoneOptions_def List.map_filter_simps Let_def)

end
